theory Spec2Isabelle
  imports Complex_Main
begin

unbundle bit_operations_syntax

section \<open>Battle snakes: the snake of \<open>snake.py\<close>\<close>

text \<open>
  A shallow embedding of \<open>src/snake.py\<close>. Grid cells and vectors are pairs of Python
  integers. Python floats (speed, time accumulators) are real numbers; the movement and the
  timers are given twice, on the reals without rounding and with the rounding of every float
  operation. Every exception the code can raise is a value of
  \<open>error\<close>; a method that mutates the snake returns \<open>Inr\<close> of the new snake, or \<open>Inl\<close> of
  the exception (the partly mutated object is then dropped).
\<close>

subsection \<open>Data\<close>

type_synonym cell = "int \<times> int"
type_synonym vec = "int \<times> int"

datatype error = IndexError | KeyError | ZeroDivisionError | TypeError

text \<open>
  The names imported from \<open>settings\<close> and \<open>utils\<close>, and the collaborators reached through
  \<open>game\<close> and \<open>tilemap\<close>, are not part of the sources. The constants, the arena and
  \<open>normalize\<close> are parameters, gathered in one record; \<open>portals\<close> lists the keys of
  \<open>tilemap.portals\<close> in iteration order.
\<close>

record env =
  MIN_SPEED :: real
  MAX_SPEED :: real
  INIT_SPEED :: real
  MAX_HITPOINTS :: int
  INVINCIBILITY_BLINK_RATE :: real
  toroidal :: "cell \<Rightarrow> cell"
  on_edge :: "cell \<Rightarrow> bool"
  portals :: "cell list"
  normalize :: "vec \<Rightarrow> vec"

text \<open>Modelled from the spec: \<open>utils.add_vecs\<close>, vector addition (section 1 and 2).\<close>

definition add_vecs :: "vec \<Rightarrow> vec \<Rightarrow> vec" where
  "add_vecs a b = (fst a + fst b, snd a + snd b)"

text \<open>Modelled from the spec: \<open>utils.sub_vecs\<close>, vector subtraction (\<open>ba = a - b\<close>).\<close>

definition sub_vecs :: "vec \<Rightarrow> vec \<Rightarrow> vec" where
  "sub_vecs a b = (fst a - fst b, snd a - snd b)"

text \<open>Modelled from the spec: \<open>utils.m_distance\<close>, the Manhattan distance of two cells.\<close>

definition m_distance :: "cell \<Rightarrow> cell \<Rightarrow> int" where
  "m_distance a b = \<bar>fst a - fst b\<bar> + \<bar>snd a - snd b\<bar>"

subsection \<open>Direction flags and sprite tables\<close>



text \<open>The flags \<open>N\<close>, \<open>E\<close>, \<open>S\<close>, \<open>W\<close> of the source, prefixed to keep them apart from variables.\<close>

definition FLAG_N :: int where "FLAG_N = 1"
definition FLAG_E :: int where "FLAG_E = 2"
definition FLAG_S :: int where "FLAG_S = 4"
definition FLAG_W :: int where "FLAG_W = 8"
definition SE :: int where "SE = FLAG_S + FLAG_E"
definition NW :: int where "NW = FLAG_N + FLAG_W"

definition STRAIGHT :: int where "STRAIGHT = 16"
definition VERTICAL :: int where "VERTICAL = 32"

definition VEC_TO_DIRFLAG :: "vec \<rightharpoonup> int" where
  "VEC_TO_DIRFLAG = map_of [((0, -1), FLAG_N), ((1, 0), FLAG_E), ((0, 1), FLAG_S), ((-1, 0), FLAG_W)]"




text \<open>A dictionary lookup \<open>d[k]\<close> raises \<open>KeyError\<close> on a missing key.\<close>

definition lookup :: "('k \<rightharpoonup> 'v) \<Rightarrow> 'k \<Rightarrow> error + 'v" where
  "lookup d k = (case d k of None \<Rightarrow> Inl KeyError | Some v \<Rightarrow> Inr v)"

text \<open>
  Python's \<open>xs[i]\<close>: a negative index counts from the end, an index out of range raises
  \<open>IndexError\<close>.
\<close>

definition item :: "'a list \<Rightarrow> int \<Rightarrow> error + 'a" where
  "item xs i =
     (if 0 \<le> i \<and> i < int (length xs) then Inr (xs ! nat i)
      else if i < 0 \<and> - int (length xs) \<le> i then Inr (xs ! nat (int (length xs) + i))
      else Inl IndexError)"

text \<open>\<open>xs.pop()\<close> removes the last element and raises \<open>IndexError\<close> on the empty list.\<close>

definition pop :: "'a list \<Rightarrow> error + 'a list" where
  "pop xs = (if xs = [] then Inl IndexError else Inr (butlast xs))"

subsection \<open>The arrangement resolver\<close>

text \<open>
  The loop over \<open>tilemap.portals.keys()\<close> keeps the first portal at Manhattan distance 1
  from \<open>b\<close>; a cell is a non-empty tuple, so \<open>if next_portal\<close> holds exactly when one was
  found.
\<close>

definition next_portal :: "env \<Rightarrow> cell \<Rightarrow> cell option" where
  "next_portal e b = find (\<lambda>portal. m_distance portal b = 1) (portals e)"

text \<open>
  The block under \<open>if ba_apart\<close>: the values of \<open>a\<close> and \<open>ba\<close> it leaves. \<open>a_on_edge\<close> is the
  flag computed before the block.
\<close>

definition gap_ba :: "env \<Rightarrow> bool \<Rightarrow> cell \<Rightarrow> cell \<Rightarrow> vec \<Rightarrow> cell \<times> vec" where
  "gap_ba e a_on_edge a b ba =
     (let ba' = (if a_on_edge then normalize e ba else ba)
      in case next_portal e b of
           Some p \<Rightarrow> (p, sub_vecs p b)
         | None \<Rightarrow> (a, ba'))"

text \<open>The block under \<open>if bc_apart\<close>: the values of \<open>c\<close> and \<open>bc\<close> it leaves.\<close>

definition gap_bc :: "env \<Rightarrow> bool \<Rightarrow> cell \<Rightarrow> cell \<Rightarrow> vec \<Rightarrow> cell \<times> vec" where
  "gap_bc e a_on_edge c b bc =
     (let bc' = (if a_on_edge then normalize e (- fst bc, - snd bc) else bc)
      in case next_portal e b of
           Some p \<Rightarrow> (p, sub_vecs p b)
         | None \<Rightarrow> (c, bc'))"

text \<open>
  The final \<open>if\<close>/\<open>elif\<close>/\<open>else\<close>, on \<open>b\<close> and the neighbours and vectors the two blocks
  left.
\<close>

definition classify :: "cell \<Rightarrow> cell \<times> vec \<Rightarrow> cell \<times> vec \<Rightarrow> error + int" where
  "classify b aa cc =
     (case (aa, cc) of
        ((a, ba), (c, bc)) \<Rightarrow>
          if fst a = fst b \<and> fst b = fst c then Inr (VERTICAL OR STRAIGHT)
          else if snd a = snd b \<and> snd b = snd c then Inr STRAIGHT
          else (case (lookup VEC_TO_DIRFLAG ba, lookup VEC_TO_DIRFLAG bc) of
                  (Inr f, Inr g) \<Rightarrow> Inr (f OR g)
                | _ \<Rightarrow> Inl KeyError))"

definition get_arrangement :: "env \<Rightarrow> cell list \<Rightarrow> int \<Rightarrow> error + int" where
  "get_arrangement e snake index =
     (case (item snake (index - 1), item snake index, item snake (index + 1)) of
        (Inr a, Inr b, Inr c) \<Rightarrow>
          (let ba = sub_vecs a b;
               bc = sub_vecs c b;
               ba_apart = (m_distance a b > 1);
               bc_apart = (m_distance c b > 1);
               a_on_edge = on_edge e a
           in classify b
                (if ba_apart then gap_ba e a_on_edge a b ba else (a, ba))
                (if bc_apart then gap_bc e a_on_edge c b bc else (c, bc)))
      | _ \<Rightarrow> Inl IndexError)"

subsection \<open>The snake and its movement states\<close>

text \<open>
  The two state classes as a tagged value; the fields of \<open>SnakeInvincibleState\<close> are its
  payload. The flags the state object writes (\<open>isinvincible\<close>, \<open>isvisible\<close>) live in the
  snake.
\<close>

datatype state = SnakeNormalState
  | SnakeInvincibleState (lifetime: real) (elapsed_lifetime: real) (elapsed_blink: real)

text \<open>
  The attributes of \<open>Snake\<close> that the methods read or write. \<open>killed\<close> records the calls
  of the external handler \<open>killed_event\<close>: each call appends its argument.
\<close>

record 'id snake =
  body :: "cell list"
  heading :: "vec option"
  hitpoints :: int
  speed :: real
  speed_bonus :: real
  elapsed_t :: real
  grow :: int
  isalive :: bool
  isvisible :: bool
  isinvincible :: bool
  ismoving :: bool
  curr_state :: state
  killed :: "'id list"
  prev :: "cell list"
  prev_heading :: "vec option"

definition init :: "env \<Rightarrow> cell \<Rightarrow> 'id snake" where
  "init e pos =
     \<lparr> body = [pos, (fst pos + 1, snd pos)],
       heading = None,
       hitpoints = MAX_HITPOINTS e,
       speed = INIT_SPEED e,
       speed_bonus = 0,
       elapsed_t = 0,
       grow = 0,
       isalive = True,
       isvisible = True,
       isinvincible = True,
       ismoving = False,
       curr_state = SnakeInvincibleState 5 0 0,
       killed = [],
       prev = [pos, (fst pos + 1, snd pos)],
       prev_heading = None \<rparr>"

definition hitpoints_setter :: "env \<Rightarrow> int \<Rightarrow> 'id snake \<Rightarrow> 'id snake" where
  "hitpoints_setter e v s =
     (if v > MAX_HITPOINTS e then s\<lparr>hitpoints := MAX_HITPOINTS e\<rparr>
      else if v < 0 then s\<lparr>hitpoints := 0\<rparr>
      else s\<lparr>hitpoints := v\<rparr>)"

definition speed_setter :: "env \<Rightarrow> real \<Rightarrow> 'id snake \<Rightarrow> 'id snake" where
  "speed_setter e v s =
     (if v > MAX_SPEED e then s\<lparr>speed := MAX_SPEED e\<rparr>
      else if v < MIN_SPEED e then s\<lparr>speed := MIN_SPEED e\<rparr>
      else s\<lparr>speed := v\<rparr>)"

definition speed_bonus_setter :: "real \<Rightarrow> 'id snake \<Rightarrow> 'id snake" where
  "speed_bonus_setter v s = s\<lparr>speed_bonus := v\<rparr>"

definition gain_speed :: "env \<Rightarrow> real \<Rightarrow> 'id snake \<Rightarrow> 'id snake" where
  "gain_speed e x s = speed_setter e (speed s + x) s"

definition gain_hitpoints :: "env \<Rightarrow> int \<Rightarrow> 'id snake \<Rightarrow> 'id snake" where
  "gain_hitpoints e x s =
     (let s1 = hitpoints_setter e (hitpoints s + x) s
      in if hitpoints s1 > MAX_HITPOINTS e then hitpoints_setter e (MAX_HITPOINTS e) s1 else s1)"

definition set_heading :: "env \<Rightarrow> vec \<Rightarrow> 'id snake \<Rightarrow> 'id snake" where
  "set_heading e new_heading s =
     s\<lparr>prev_heading := heading s,
       heading := Some (if new_heading \<noteq> (0, 0) then normalize e new_heading else new_heading)\<rparr>"

text \<open>
  \<open>SnakeInvincibleState.__init__\<close> sets \<open>isinvincible\<close> when the state object is built,
  that is before \<open>change_state\<close> runs the old state's \<open>leave\<close>. Only the invincible state
  has a \<open>leave\<close> method.
\<close>

definition invincible_init :: "'id snake \<Rightarrow> 'id snake" where
  "invincible_init s = s\<lparr>isinvincible := True\<rparr>"

definition leave :: "'id snake \<Rightarrow> 'id snake" where
  "leave s = s\<lparr>isinvincible := False, isvisible := True\<rparr>"

definition change_state :: "state \<Rightarrow> 'id snake \<Rightarrow> 'id snake" where
  "change_state new_state s =
     (let s1 = (case curr_state s of
                  SnakeInvincibleState l el eb \<Rightarrow> leave s
                | SnakeNormalState \<Rightarrow> s)
      in s1\<lparr>curr_state := new_state\<rparr>)"

subsection \<open>Damage\<close>

text \<open>
  The shrink loop of \<open>take_damage\<close>: \<open>for _ in range(shrink)\<close>, leaving the loop as soon
  as \<open>len(self.body) == 2\<close>, and popping from \<open>prev\<close> under \<open>setback\<close> and from \<open>body\<close>
  otherwise. The first argument counts the iterations left.
\<close>

fun shrink_loop :: "nat \<Rightarrow> bool \<Rightarrow> 'id snake \<Rightarrow> error + 'id snake" where
  "shrink_loop 0 setback s = Inr s"
| "shrink_loop (Suc n) setback s =
     (if length (body s) = 2 then Inr s
      else if setback then
        (case pop (prev s) of
           Inl err \<Rightarrow> Inl err
         | Inr xs \<Rightarrow> shrink_loop n setback (s\<lparr>prev := xs\<rparr>))
      else
        (case pop (body s) of
           Inl err \<Rightarrow> Inl err
         | Inr xs \<Rightarrow> shrink_loop n setback (s\<lparr>body := xs\<rparr>)))"

text \<open>The block under \<open>if setback\<close>: the body is restored from \<open>prev\<close> and the heading recomputed.\<close>

definition set_back :: "env \<Rightarrow> 'id snake \<Rightarrow> error + 'id snake" where
  "set_back e s =
     (let s1 = s\<lparr>body := prev s\<rparr>
      in case (item (body s1) 0, item (body s1) 1) of
           (Inr b0, Inr b1) \<Rightarrow>
             (let xpos = (if fst b0 > fst b1 then 1 else if fst b0 < fst b1 then - 1 else 0);
                  ypos = (if snd b0 > snd b1 then 1 else if snd b0 < snd b1 then - 1 else 0)
              in Inr ((set_heading e (xpos, ypos) s1)\<lparr>prev_heading := Some (xpos, ypos)\<rparr>))
         | _ \<Rightarrow> Inl IndexError)"

text \<open>The last block of \<open>take_damage\<close>: the death check and the call of the handler.\<close>

definition death_check :: "'id \<Rightarrow> 'id snake \<Rightarrow> 'id snake" where
  "death_check dealt_by s =
     (if hitpoints s \<le> 0 then s\<lparr>isalive := False, killed := killed s @ [dealt_by]\<rparr> else s)"

definition take_damage ::
  "env \<Rightarrow> int \<Rightarrow> 'id \<Rightarrow> bool \<Rightarrow> bool \<Rightarrow> real \<Rightarrow> int \<Rightarrow> real \<Rightarrow> 'id snake \<Rightarrow> error + 'id snake" where
  "take_damage e dmg dealt_by setback invincible invinc_lifetime shrink slowdown s =
     (case (if \<not> isinvincible s then
              (case shrink_loop (nat shrink) setback (hitpoints_setter e (hitpoints s - dmg) s) of
                 Inl err \<Rightarrow> Inl err
               | Inr s1 \<Rightarrow> Inr (gain_speed e (- slowdown) s1))
            else Inr s) of
        Inl err \<Rightarrow> Inl err
      | Inr s2 \<Rightarrow>
          (case (if setback then set_back e s2 else Inr s2) of
             Inl err \<Rightarrow> Inl err
           | Inr s3 \<Rightarrow>
               (let s4 = (if invincible \<and> \<not> isinvincible s3
                          then change_state (SnakeInvincibleState invinc_lifetime 0 0) (invincible_init s3)
                          else s3)
                in Inr (death_check dealt_by s4))))"

definition respawn :: "env \<Rightarrow> cell \<Rightarrow> 'id snake \<Rightarrow> 'id snake" where
  "respawn e pos s =
     (let s1 = s\<lparr>body := [pos, (fst pos + 1, snd pos)],
                 speed := INIT_SPEED e,
                 heading := None,
                 prev_heading := None,
                 ismoving := False,
                 isalive := True\<rparr>;
          s2 = hitpoints_setter e (MAX_HITPOINTS e) s1;
          s3 = change_state (SnakeInvincibleState 3.5 0 0) (invincible_init s2)
      in s3\<lparr>elapsed_t := 0\<rparr>)"

subsection \<open>Movement\<close>

text \<open>
  The loop of the branch \<open>grow < 0\<close> of \<open>move\<close>: \<open>for _ in range(-self.grow+1)\<close>, leaving
  the loop as soon as \<open>len(self.body) == 2\<close>.
\<close>

fun drop_loop :: "nat \<Rightarrow> cell list \<Rightarrow> error + cell list" where
  "drop_loop 0 xs = Inr xs"
| "drop_loop (Suc n) xs =
     (if length xs = 2 then Inr xs
      else (case pop xs of Inl err \<Rightarrow> Inl err | Inr ys \<Rightarrow> drop_loop n ys))"

text \<open>The growth bookkeeping of one step, after the new head was inserted.\<close>

definition resolve_growth :: "'id snake \<Rightarrow> error + 'id snake" where
  "resolve_growth s =
     (if grow s = 0 then
        (case pop (body s) of Inl err \<Rightarrow> Inl err | Inr xs \<Rightarrow> Inr (s\<lparr>body := xs\<rparr>))
      else if grow s > 0 then Inr (s\<lparr>grow := grow s - 1\<rparr>)
      else
        (case drop_loop (nat (- grow s + 1)) (body s) of
           Inl err \<Rightarrow> Inl err
         | Inr xs \<Rightarrow> Inr (s\<lparr>body := xs, grow := 0\<rparr>)))"

text \<open>
  The body of \<open>if self.elapsed_t >= 1. / (...)\<close>: one discrete step. \<open>add_vecs\<close> applied to
  the unset heading \<open>None\<close> has no cell to return; the model reports \<open>TypeError\<close>.
\<close>

definition step :: "'id snake \<Rightarrow> error + 'id snake" where
  "step s =
     (let s1 = s\<lparr>prev := body s,
                 elapsed_t := elapsed_t s - 1 / (speed s + speed_bonus s)\<rparr>
      in case (item (body s1) 0, heading s1) of
           (Inr b0, Some h) \<Rightarrow> resolve_growth (s1\<lparr>body := add_vecs b0 h # body s1\<rparr>)
         | (Inl err, _) \<Rightarrow> Inl err
         | (Inr b0, None) \<Rightarrow> Inl TypeError)"

definition move :: "env \<Rightarrow> 'id snake \<Rightarrow> error + 'id snake" where
  "move e s =
     (if \<not> ismoving s then Inr s
      else (case item (body s) 0 of
              Inl err \<Rightarrow> Inl err
            | Inr b0 \<Rightarrow>
                (let s1 = s\<lparr>body := (body s)[0 := toroidal e b0]\<rparr>
                 in if speed s1 + speed_bonus s1 = 0 then Inl ZeroDivisionError
                    else if elapsed_t s1 \<ge> 1 / (speed s1 + speed_bonus s1) then step s1
                    else Inr s1)))"

definition normal_update :: "env \<Rightarrow> real \<Rightarrow> 'id snake \<Rightarrow> error + 'id snake" where
  "normal_update e delta_time s = move e s"

text \<open>
  \<open>SnakeInvincibleState.update\<close>, for the state object with the fields \<open>l\<close>, \<open>el\<close>, \<open>eb\<close>.
\<close>

definition invincible_update ::
  "env \<Rightarrow> real \<Rightarrow> real \<Rightarrow> real \<Rightarrow> real \<Rightarrow> 'id snake \<Rightarrow> error + 'id snake" where
  "invincible_update e delta_time l el eb s =
     (let el1 = el + delta_time;
          eb1 = eb + delta_time;
          blink = (eb1 \<ge> INVINCIBILITY_BLINK_RATE e);
          eb2 = (if blink then eb1 - INVINCIBILITY_BLINK_RATE e else eb1);
          s1 = (if blink then s\<lparr>isvisible := \<not> isvisible s\<rparr> else s);
          s2 = s1\<lparr>curr_state := SnakeInvincibleState l el1 eb2\<rparr>;
          s3 = (if el1 \<ge> l then change_state SnakeNormalState s2 else s2)
      in move e s3)"

definition update :: "env \<Rightarrow> real \<Rightarrow> 'id snake \<Rightarrow> error + 'id snake" where
  "update e delta_time s =
     (if \<not> isalive s then Inr s
      else (let s1 = (if ismoving s then s\<lparr>elapsed_t := elapsed_t s + delta_time\<rparr> else s)
            in case curr_state s1 of
                 SnakeNormalState \<Rightarrow> normal_update e delta_time s1
               | SnakeInvincibleState l el eb \<Rightarrow> invincible_update e delta_time l el eb s1))"

subsection \<open>Movement and timers on doubles\<close>

text \<open>
  Python floats are IEEE doubles. A finite double is a real number and doubles are compared
  exactly, but an arithmetic operation returns the exact result rounded to a double. The
  functions \<open>step\<close>, \<open>move\<close>, \<open>invincible_update\<close> and \<open>update\<close> above compute on the
  reals without rounding. The versions below are the same code with every float operation
  (\<open>+=\<close>, \<open>-=\<close>, \<open>+\<close>, \<open>/\<close>) followed by the rounding function \<open>rnd\<close> of the format, which
  is a parameter; \<open>rnd = (\<lambda>x. x)\<close> gives the functions above back, and
  \<open>rnd = double_round\<close> gives the code as Python runs it. Overflow and NaN are not modelled.
\<close>




text \<open>The value of \<open>1. / (self._speed + self._speed_bonus)\<close>.\<close>

definition cadence :: "(real \<Rightarrow> real) \<Rightarrow> 'id snake \<Rightarrow> real" where
  "cadence rnd s = rnd (1 / rnd (speed s + speed_bonus s))"

definition step_fl :: "(real \<Rightarrow> real) \<Rightarrow> 'id snake \<Rightarrow> error + 'id snake" where
  "step_fl rnd s =
     (let s1 = s\<lparr>prev := body s, elapsed_t := rnd (elapsed_t s - cadence rnd s)\<rparr>
      in case (item (body s1) 0, heading s1) of
           (Inr b0, Some h) \<Rightarrow> resolve_growth (s1\<lparr>body := add_vecs b0 h # body s1\<rparr>)
         | (Inl err, _) \<Rightarrow> Inl err
         | (Inr b0, None) \<Rightarrow> Inl TypeError)"

definition move_fl :: "(real \<Rightarrow> real) \<Rightarrow> env \<Rightarrow> 'id snake \<Rightarrow> error + 'id snake" where
  "move_fl rnd e s =
     (if \<not> ismoving s then Inr s
      else (case item (body s) 0 of
              Inl err \<Rightarrow> Inl err
            | Inr b0 \<Rightarrow>
                (let s1 = s\<lparr>body := (body s)[0 := toroidal e b0]\<rparr>
                 in if rnd (speed s1 + speed_bonus s1) = 0 then Inl ZeroDivisionError
                    else if elapsed_t s1 \<ge> cadence rnd s1 then step_fl rnd s1
                    else Inr s1)))"

definition invincible_update_fl ::
  "(real \<Rightarrow> real) \<Rightarrow> env \<Rightarrow> real \<Rightarrow> real \<Rightarrow> real \<Rightarrow> real \<Rightarrow> 'id snake \<Rightarrow> error + 'id snake" where
  "invincible_update_fl rnd e delta_time l el eb s =
     (let el1 = rnd (el + delta_time);
          eb1 = rnd (eb + delta_time);
          blink = (eb1 \<ge> INVINCIBILITY_BLINK_RATE e);
          eb2 = (if blink then rnd (eb1 - INVINCIBILITY_BLINK_RATE e) else eb1);
          s1 = (if blink then s\<lparr>isvisible := \<not> isvisible s\<rparr> else s);
          s2 = s1\<lparr>curr_state := SnakeInvincibleState l el1 eb2\<rparr>;
          s3 = (if el1 \<ge> l then change_state SnakeNormalState s2 else s2)
      in move_fl rnd e s3)"

definition update_fl :: "(real \<Rightarrow> real) \<Rightarrow> env \<Rightarrow> real \<Rightarrow> 'id snake \<Rightarrow> error + 'id snake" where
  "update_fl rnd e delta_time s =
     (if \<not> isalive s then Inr s
      else (let s1 = (if ismoving s then s\<lparr>elapsed_t := rnd (elapsed_t s + delta_time)\<rparr> else s)
            in case curr_state s1 of
                 SnakeNormalState \<Rightarrow> move_fl rnd e s1
               | SnakeInvincibleState l el eb \<Rightarrow> invincible_update_fl rnd e delta_time l el eb s1))"

subsection \<open>Rendering\<close>





subsection \<open>Reachable snakes\<close>

text \<open>
  \<open>Snake.__setitem__\<close>: \<open>self.body[i] = item\<close>.
\<close>

definition setitem :: "int \<Rightarrow> cell \<Rightarrow> 'id snake \<Rightarrow> error + 'id snake" where
  "setitem i c s =
     (if 0 \<le> i \<and> i < int (length (body s)) then Inr (s\<lparr>body := (body s)[nat i := c]\<rparr>)
      else if i < 0 \<and> - int (length (body s)) \<le> i
        then Inr (s\<lparr>body := (body s)[nat (int (length (body s)) + i) := c]\<rparr>)
      else Inl IndexError)"

text \<open>
  The snakes a client can produce: a new snake, and the result of every method and property
  setter that returns normally. The attributes \<open>ismoving\<close> and \<open>grow\<close> are never set to a
  new value by the class itself, only by its client, so their assignment is an operation too.
\<close>

inductive reachable :: "env \<Rightarrow> 'id snake \<Rightarrow> bool" for e :: env where
  r_init: "reachable e (init e pos)"
| r_update: "reachable e s \<Longrightarrow> update e delta_time s = Inr s' \<Longrightarrow> reachable e s'"
| r_take_damage:
    "reachable e s \<Longrightarrow>
     take_damage e dmg dealt_by setback invincible invinc_lifetime shrink slowdown s = Inr s' \<Longrightarrow>
     reachable e s'"
| r_respawn: "reachable e s \<Longrightarrow> reachable e (respawn e pos s)"
| r_set_heading: "reachable e s \<Longrightarrow> reachable e (set_heading e v s)"
| r_gain_speed: "reachable e s \<Longrightarrow> reachable e (gain_speed e x s)"
| r_gain_hitpoints: "reachable e s \<Longrightarrow> reachable e (gain_hitpoints e n s)"
| r_speed: "reachable e s \<Longrightarrow> reachable e (speed_setter e x s)"
| r_speed_bonus: "reachable e s \<Longrightarrow> reachable e (speed_bonus_setter x s)"
| r_hitpoints: "reachable e s \<Longrightarrow> reachable e (hitpoints_setter e n s)"
| r_ismoving: "reachable e s \<Longrightarrow> reachable e (s\<lparr>ismoving := m\<rparr>)"
| r_grow: "reachable e s \<Longrightarrow> reachable e (s\<lparr>grow := g\<rparr>)"
| r_setitem: "reachable e s \<Longrightarrow> setitem i c s = Inr s' \<Longrightarrow> reachable e s'"

subsection \<open>An example arena\<close>

text \<open>
  Concrete values for the parameters, used to run the model: a 10 by 10 torus without
  portals, normalisation by the sign of each coordinate, speed bounds 1 and 20, initial
  speed 10 (a cadence of 0.1), 100 hitpoints and a blink rate of 0.1.
\<close>

definition sign_vec :: "vec \<Rightarrow> vec" where
  "sign_vec v = (sgn (fst v), sgn (snd v))"

definition example_env :: env where
  "example_env =
     \<lparr> MIN_SPEED = 1, MAX_SPEED = 20, INIT_SPEED = 10, MAX_HITPOINTS = 100,
       INVINCIBILITY_BLINK_RATE = 1 / 10,
       toroidal = (\<lambda>c. (fst c mod 10, snd c mod 10)),
       on_edge = (\<lambda>c. fst c = 0 \<or> fst c = 9 \<or> snd c = 0 \<or> snd c = 9),
       portals = [],
       normalize = sign_vec \<rparr>"

text \<open>A snake with the given body in the normal state, alive, visible and at rest.\<close>

definition example_snake :: "cell list \<Rightarrow> nat snake" where
  "example_snake cells =
     \<lparr> body = cells, heading = None, hitpoints = 100, speed = 10, speed_bonus = 0,
       elapsed_t = 0, grow = 0, isalive = True, isvisible = True, isinvincible = False,
       ismoving = False, curr_state = SnakeNormalState, killed = [], prev = cells,
       prev_heading = None \<rparr>"

definition speed_ok :: "env \<Rightarrow> 'id snake \<Rightarrow> bool" where
  "speed_ok e s = (MIN_SPEED e \<le> speed s \<and> speed s \<le> MAX_SPEED e)"

text \<open>A new snake of the example arena that was set moving with a speed bonus of 5.\<close>

definition boosted_snake :: "nat snake" where
  "boosted_snake = (speed_bonus_setter 5 (init example_env (0, 0)))\<lparr>ismoving := True\<rparr>"

definition stalled_snake :: "nat snake" where
  "stalled_snake = (speed_bonus_setter (- 10) (init example_env (0, 0)))\<lparr>ismoving := True\<rparr>"

text \<open>A snake of five cells heading west, due for a step, with \<open>grow = -1\<close>.\<close>

definition shrinking_snake :: "nat snake" where
  "shrinking_snake =
     (example_snake [(5, 5), (6, 5), (7, 5), (8, 5), (9, 5)])
       \<lparr>ismoving := True, heading := Some (- 1, 0), elapsed_t := 1, grow := - 1\<rparr>"


text \<open>An invincible snake that is alive with no hitpoints left.\<close>

definition shielded_snake :: "nat snake" where
  "shielded_snake =
     (example_snake [(2, 2), (3, 2)])
       \<lparr>isinvincible := True, curr_state := SnakeInvincibleState 5 0 0, hitpoints := 0\<rparr>"

text \<open>
  A second arena, whose speeds and blink rate are powers of two: initial speed 8 (a cadence
  of 1/8) and a blink rate of 1/8. With frame times that are multiples of 1/64 every sum,
  difference and quotient the code forms from them below is a double, so no operation
  rounds.
\<close>

definition dyadic_env :: env where
  "dyadic_env = example_env\<lparr>MAX_SPEED := 32, INIT_SPEED := 8, INVINCIBILITY_BLINK_RATE := 1 / 8\<rparr>"


text \<open>
  The snake of the second arena after one step west that grew it to three cells; \<open>prev\<close>
  holds the two cells before the step.
\<close>

definition stepped_snake :: "nat snake" where
  "stepped_snake =
     \<lparr> body = [(1, 2), (2, 2), (3, 2)], heading = Some (- 1, 0), hitpoints = 100, speed = 8,
       speed_bonus = 0, elapsed_t = 39 / 8, grow = 0, isalive = True, isvisible = True,
       isinvincible = False, ismoving = True, curr_state = SnakeNormalState, killed = [],
       prev = [(2, 2), (3, 2)], prev_heading = None \<rparr>"

text \<open>
  A new snake of the second arena at \<open>(2, 2)\<close> after a frame of 5 seconds: its invincibility
  has run out and it has not moved.
\<close>

definition mortal_snake :: "nat snake" where
  "mortal_snake =
     \<lparr> body = [(2, 2), (3, 2)], heading = None, hitpoints = 100, speed = 8, speed_bonus = 0,
       elapsed_t = 0, grow = 0, isalive = True, isvisible = True, isinvincible = False,
       ismoving = False, curr_state = SnakeNormalState, killed = [], prev = [(2, 2), (3, 2)],
       prev_heading = None \<rparr>"



text \<open>
  The block for \<open>bc\<close> as the specification words it, to be compared with \<open>gap_bc\<close>: the
  logic of the \<open>ba\<close> case applied to \<open>c\<close>, with the edge test on \<open>c\<close> and the normalised
  vector negated before the portal substitution.
\<close>

definition gap_bc_symmetric :: "env \<Rightarrow> cell \<Rightarrow> cell \<Rightarrow> vec \<Rightarrow> cell \<times> vec" where
  "gap_bc_symmetric e c b bc =
     (let bc' = (if on_edge e c then (- fst (normalize e bc), - snd (normalize e bc)) else bc)
      in case next_portal e b of
           Some p \<Rightarrow> (p, sub_vecs p b)
         | None \<Rightarrow> (c, bc'))"

section \<open>Properties\<close>

subsection \<open>A dead snake is not updated\<close>

text \<open>
  C10. For a snake with \<open>isalive = False\<close>, \<open>update(delta_time)\<close> returns at once and the
  snake is unchanged: no time accumulates, the timers of the movement state do not
  advance, and no movement step occurs.
\<close>

theorem update_dead_unchanged:
  assumes "\<not> isalive s"
  shows "update e delta_time s = Inr s"
  using assms by (simp add: update_def)

theorem update_dead_unchanged_witness:
  "\<not> isalive ((example_snake [(2, 2), (3, 2)])\<lparr>isalive := False, ismoving := True\<rparr>) \<and>
   update example_env 5 ((example_snake [(2, 2), (3, 2)])\<lparr>isalive := False, ismoving := True\<rparr>)
     = Inr ((example_snake [(2, 2), (3, 2)])\<lparr>isalive := False, ismoving := True\<rparr>)"
  using update_dead_unchanged
    [of "(example_snake [(2, 2), (3, 2)])\<lparr>isalive := False, ismoving := True\<rparr>" example_env 5]
  by (simp add: example_snake_def)

subsection \<open>The divisor of the movement cadence\<close>

lemma speed_shrink_loop: "shrink_loop n sb s = Inr s' \<Longrightarrow> speed s' = speed s"
  by (induction n sb s rule: shrink_loop.induct) (auto split: if_splits sum.splits)

lemma speed_set_back: "set_back e s = Inr s' \<Longrightarrow> speed s' = speed s"
  by (auto simp: set_back_def set_heading_def Let_def split: sum.splits)

lemma speed_change_state: "speed (change_state st s) = speed s"
  by (simp add: change_state_def leave_def Let_def split: state.splits)

lemma speed_death_check: "speed (death_check d s) = speed s"
  by (simp add: death_check_def)

lemma speed_ok_speed_setter: "MIN_SPEED e \<le> MAX_SPEED e \<Longrightarrow> speed_ok e (speed_setter e v s)"
  by (simp add: speed_ok_def speed_setter_def)

lemma speed_ok_take_damage:
  assumes "MIN_SPEED e \<le> MAX_SPEED e" "speed_ok e s"
    "take_damage e dmg d sb iv il sh sl s = Inr s'"
  shows "speed_ok e s'"
proof (cases "isinvincible s")
  case True
  with assms(3) have "speed s' = speed s"
    by (auto simp: take_damage_def Let_def speed_change_state speed_death_check invincible_init_def
        dest!: speed_set_back split: sum.splits if_splits)
  with assms(2) show ?thesis by (simp add: speed_ok_def)
next
  case False
  with assms(3) obtain s1 s3 where
    s1: "shrink_loop (nat sh) sb (hitpoints_setter e (hitpoints s - dmg) s) = Inr s1"
    and s3: "(if sb then set_back e (gain_speed e (- sl) s1) else Inr (gain_speed e (- sl) s1)) = Inr s3"
    and s': "s' = death_check d (if iv \<and> \<not> isinvincible s3
              then change_state (SnakeInvincibleState il 0 0) (invincible_init s3) else s3)"
    by (auto simp: take_damage_def Let_def split: sum.splits if_splits)
  have "speed_ok e (gain_speed e (- sl) s1)"
    using assms(1) by (simp add: gain_speed_def speed_ok_speed_setter)
  moreover have "speed s3 = speed (gain_speed e (- sl) s1)"
    using s3 by (auto dest: speed_set_back split: if_splits)
  moreover have "speed s' = speed s3"
    by (simp add: s' speed_death_check speed_change_state invincible_init_def)
  ultimately show ?thesis by (simp add: speed_ok_def)
qed

lemma speed_resolve_growth: "resolve_growth s = Inr s' \<Longrightarrow> speed s' = speed s"
  by (auto simp: resolve_growth_def split: if_splits sum.splits)

lemma speed_step: "step s = Inr s' \<Longrightarrow> speed s' = speed s"
  by (auto simp: step_def Let_def dest!: speed_resolve_growth split: sum.splits option.splits)

lemma speed_move: "move e s = Inr s' \<Longrightarrow> speed s' = speed s"
  by (auto simp: move_def Let_def dest!: speed_step split: sum.splits if_splits)

lemma speed_update: "update e dt s = Inr s' \<Longrightarrow> speed s' = speed s"
  by (auto simp: update_def normal_update_def invincible_update_def Let_def speed_change_state
      dest!: speed_move split: sum.splits if_splits state.splits)

text \<open>
  The speed of every reachable snake lies between \<open>MIN_SPEED\<close> and \<open>MAX_SPEED\<close>, provided
  the initial speed does (\<open>__init__\<close> and \<open>respawn\<close> assign \<open>INIT_SPEED\<close> without the clamp).
\<close>

lemma speed_ok_reachable:
  assumes "reachable e s" "MIN_SPEED e \<le> INIT_SPEED e" "INIT_SPEED e \<le> MAX_SPEED e"
  shows "speed_ok e s"
  using assms
proof (induction rule: reachable.induct)
  case (r_init pos) then show ?case by (simp add: speed_ok_def init_def)
next
  case (r_update s dt s') then show ?case by (auto simp: speed_ok_def dest: speed_update)
next
  case (r_take_damage s dmg d sb iv il sh sl s')
  then show ?case using speed_ok_take_damage[of e s dmg d sb iv il sh sl s'] by simp
next
  case (r_respawn s pos)
  then show ?case
    by (simp add: speed_ok_def respawn_def Let_def speed_change_state invincible_init_def
        hitpoints_setter_def)
next
  case (r_setitem s i c s')
  then show ?case by (auto simp: speed_ok_def setitem_def split: if_splits)
qed (auto simp: speed_ok_def set_heading_def gain_speed_def speed_setter_def speed_bonus_setter_def
      gain_hitpoints_def hitpoints_setter_def Let_def)

lemma pop_error: "pop xs = Inl err \<Longrightarrow> err = IndexError"
  by (simp add: pop_def split: if_splits)

lemma drop_loop_error: "drop_loop n xs = Inl err \<Longrightarrow> err = IndexError"
  by (induction n xs rule: drop_loop.induct) (auto dest: pop_error split: if_splits sum.splits)

lemma item_error: "item xs i = Inl err \<Longrightarrow> err = IndexError"
  by (simp add: item_def split: if_splits)

lemma resolve_growth_error: "resolve_growth s = Inl err \<Longrightarrow> err = IndexError"
  by (auto simp: resolve_growth_def dest: pop_error drop_loop_error split: if_splits sum.splits)

lemma step_error: "step s = Inl err \<Longrightarrow> err = IndexError \<or> err = TypeError"
  by (auto simp: step_def Let_def dest: resolve_growth_error item_error
      split: sum.splits option.splits)

text \<open>
  C2, as amended. The speed of every reachable snake is clamped to at least
  \<open>MIN_SPEED > 0\<close> (given \<open>MIN_SPEED \<le> INIT_SPEED \<le> MAX_SPEED\<close>), and \<open>speed_bonus\<close> is an
  unclamped additive modifier; so the divisor \<open>speed + speed_bonus\<close> of the cadence is
  strictly positive, and \<open>move\<close> does not divide by zero, whenever the bonus is above
  \<open>- MIN_SPEED\<close> (in particular when it is not negative).
\<close>

theorem cadence_divisor_positive:
  assumes "reachable e s"
    and "0 < MIN_SPEED e" and "MIN_SPEED e \<le> INIT_SPEED e" and "INIT_SPEED e \<le> MAX_SPEED e"
    and "- MIN_SPEED e < speed_bonus s"
  shows "MIN_SPEED e \<le> speed s \<and> speed s \<le> MAX_SPEED e \<and> 0 < speed s + speed_bonus s
    \<and> move e s \<noteq> Inl ZeroDivisionError"
proof -
  have ok: "MIN_SPEED e \<le> speed s" "speed s \<le> MAX_SPEED e"
    using speed_ok_reachable[OF assms(1,3,4)] by (simp_all add: speed_ok_def)
  then have pos: "0 < speed s + speed_bonus s"
    using assms(5) by linarith
  have "move e s \<noteq> Inl ZeroDivisionError"
  proof
    assume "move e s = Inl ZeroDivisionError"
    then show False
      using pos by (auto simp: move_def Let_def dest: item_error step_error
          split: if_splits sum.splits)
  qed
  with ok pos show ?thesis by simp
qed

theorem cadence_divisor_positive_witness:
  "reachable example_env boosted_snake
   \<and> 0 < MIN_SPEED example_env \<and> MIN_SPEED example_env \<le> INIT_SPEED example_env
   \<and> INIT_SPEED example_env \<le> MAX_SPEED example_env
   \<and> - MIN_SPEED example_env < speed_bonus boosted_snake
   \<and> speed boosted_snake + speed_bonus boosted_snake = 15
   \<and> move example_env boosted_snake \<noteq> Inl ZeroDivisionError"
proof -
  have r: "reachable example_env boosted_snake"
    unfolding boosted_snake_def by (intro r_ismoving r_speed_bonus r_init)
  have h: "0 < MIN_SPEED example_env" "MIN_SPEED example_env \<le> INIT_SPEED example_env"
    "INIT_SPEED example_env \<le> MAX_SPEED example_env"
    "- MIN_SPEED example_env < speed_bonus boosted_snake"
    by (simp_all add: example_env_def boosted_snake_def speed_bonus_setter_def init_def)
  have "speed boosted_snake + speed_bonus boosted_snake = 15"
    by (simp add: example_env_def boosted_snake_def speed_bonus_setter_def init_def)
  with r h cadence_divisor_positive[OF r h] show ?thesis by simp
qed

text \<open>
  C2, as stated, fails: the setter of \<open>speed_bonus\<close> takes any value, so a client reaches a
  snake whose divisor is zero, and \<open>move\<close> then raises \<open>ZeroDivisionError\<close>.
\<close>

theorem cadence_divisor_zero_reachable:
  "reachable example_env stalled_snake
   \<and> 0 < MIN_SPEED example_env \<and> MIN_SPEED example_env \<le> speed stalled_snake
   \<and> \<not> 0 < speed stalled_snake + speed_bonus stalled_snake
   \<and> move example_env stalled_snake = Inl ZeroDivisionError"
proof -
  have "reachable example_env stalled_snake"
    unfolding stalled_snake_def by (intro r_ismoving r_speed_bonus r_init)
  then show ?thesis
    by (simp add: example_env_def stalled_snake_def speed_bonus_setter_def init_def move_def
        item_def Let_def)
qed

subsection \<open>The discrete step\<close>

lemma drop_loop_take:
  "2 \<le> length xs \<Longrightarrow> drop_loop n xs = Inr (take (max 2 (length xs - n)) xs)"
proof (induction n arbitrary: xs)
  case 0
  then show ?case by simp
next
  case (Suc n)
  show ?case
  proof (cases "length xs = 2")
    case True
    then show ?thesis by simp
  next
    case False
    with Suc.prems have len: "3 \<le> length xs" by simp
    then have "xs \<noteq> []" by auto
    moreover have "2 \<le> length (butlast xs)" using len by simp
    moreover have "take (max 2 (length (butlast xs) - n)) (butlast xs)
        = take (max 2 (length xs - Suc n)) xs"
    proof -
      have "max 2 (length xs - Suc n) < length xs" using len by arith
      then show ?thesis by (simp add: take_butlast)
    qed
    ultimately show ?thesis
      using False Suc.IH[of "butlast xs"] by (simp add: pop_def)
  qed
qed

text \<open>
  C3, as amended. A step taken with \<open>grow < 0\<close> prepends the new head and then drops
  \<open>|grow| + 1\<close> cells from the tail in all, that is the tail and \<open>|grow|\<close> further cells,
  never reducing the body below length 2; then it resets \<open>grow\<close> to 0.
\<close>

theorem move_shrink_step:
  assumes "ismoving s" and "body s = b0 # bs" and "heading s = Some h"
    and "speed s + speed_bonus s \<noteq> 0"
    and "1 / (speed s + speed_bonus s) \<le> elapsed_t s"
    and "grow s < 0"
  shows "move e s = Inr (s\<lparr>body := take (max 2 (length (body s) + 1 - nat (- grow s + 1)))
                                    (add_vecs (toroidal e b0) h # toroidal e b0 # bs),
                          prev := toroidal e b0 # bs,
                          elapsed_t := elapsed_t s - 1 / (speed s + speed_bonus s),
                          grow := 0\<rparr>)
    \<and> 2 \<le> length (take (max 2 (length (body s) + 1 - nat (- grow s + 1)))
                                    (add_vecs (toroidal e b0) h # toroidal e b0 # bs))"
  using assms
  by (simp add: move_def item_def step_def Let_def resolve_growth_def drop_loop_take)

theorem move_shrink_step_witness:
  "ismoving shrinking_snake \<and> body shrinking_snake = (5, 5) # [(6, 5), (7, 5), (8, 5), (9, 5)]
   \<and> heading shrinking_snake = Some (- 1, 0)
   \<and> speed shrinking_snake + speed_bonus shrinking_snake \<noteq> 0
   \<and> 1 / (speed shrinking_snake + speed_bonus shrinking_snake) \<le> elapsed_t shrinking_snake
   \<and> grow shrinking_snake < 0
   \<and> move example_env shrinking_snake =
       Inr (shrinking_snake\<lparr>body := [(4, 5), (5, 5), (6, 5), (7, 5)],
              prev := [(5, 5), (6, 5), (7, 5), (8, 5), (9, 5)],
              elapsed_t := 9 / 10, grow := 0\<rparr>)"
  using move_shrink_step
    [of shrinking_snake "(5, 5)" "[(6, 5), (7, 5), (8, 5), (9, 5)]" "(- 1, 0)" example_env]
  by (simp add: shrinking_snake_def example_snake_def example_env_def add_vecs_def)

text \<open>
  C3, as stated, fails: dropping the tail plus \<open>|grow| + 1\<close> additional cells would leave 3
  of the 6 cells of this snake after the new head was prepended; the step leaves 4.
\<close>

theorem move_shrink_counterexample:
  "grow shrinking_snake < 0
   \<and> move example_env shrinking_snake =
       Inr (shrinking_snake\<lparr>body := [(4, 5), (5, 5), (6, 5), (7, 5)],
              prev := [(5, 5), (6, 5), (7, 5), (8, 5), (9, 5)],
              elapsed_t := 9 / 10, grow := 0\<rparr>)
   \<and> length [(4, 5), (5, 5), (6, 5), (7, 5 :: int) :: int \<times> int] \<noteq>
       max 2 (length (body shrinking_snake) + 1 - (1 + (nat \<bar>grow shrinking_snake\<bar> + 1)))"
  by (simp add: shrinking_snake_def example_snake_def example_env_def add_vecs_def move_def
      item_def step_def Let_def resolve_growth_def pop_def eval_nat_numeral)

subsection \<open>One step per frame\<close>

text \<open>With the identity as rounding the functions on doubles are the functions on the reals.\<close>

lemma step_fl_exact: "step_fl (\<lambda>x. x) s = step s"
  by (simp add: step_fl_def step_def cadence_def)

lemma move_fl_exact: "move_fl (\<lambda>x. x) e s = move e s"
  by (simp add: move_fl_def move_def cadence_def step_fl_exact Let_def split: sum.splits)

lemma update_fl_exact: "update_fl (\<lambda>x. x) e dt s = update e dt s"
  by (simp add: update_fl_def update_def normal_update_def invincible_update_fl_def
      invincible_update_def move_fl_exact Let_def split: state.splits)







subsection \<open>Death\<close>

lemma shrink_loop_health:
  "shrink_loop n sb s = Inr s' \<Longrightarrow>
   hitpoints s' = hitpoints s \<and> isalive s' = isalive s \<and> killed s' = killed s
   \<and> isinvincible s' = isinvincible s"
  by (induction n sb s rule: shrink_loop.induct) (auto split: if_splits sum.splits)

lemma set_back_health:
  "set_back e s = Inr s' \<Longrightarrow>
   hitpoints s' = hitpoints s \<and> isalive s' = isalive s \<and> killed s' = killed s
   \<and> isinvincible s' = isinvincible s"
  by (auto simp: set_back_def set_heading_def Let_def split: sum.splits)

lemma change_state_health:
  "hitpoints (change_state st s) = hitpoints s \<and> isalive (change_state st s) = isalive s
   \<and> killed (change_state st s) = killed s"
  by (simp add: change_state_def leave_def Let_def split: state.splits)

lemma gain_speed_health:
  "hitpoints (gain_speed e x s) = hitpoints s \<and> isalive (gain_speed e x s) = isalive s
   \<and> killed (gain_speed e x s) = killed s \<and> isinvincible (gain_speed e x s) = isinvincible s"
  by (simp add: gain_speed_def speed_setter_def)

lemma hitpoints_setter_other:
  "isalive (hitpoints_setter e v s) = isalive s \<and> killed (hitpoints_setter e v s) = killed s
   \<and> isinvincible (hitpoints_setter e v s) = isinvincible s"
  by (simp add: hitpoints_setter_def)

lemma take_damage_before_check:
  assumes "take_damage e dmg dealt_by setback invincible invinc_lifetime shrink slowdown s = Inr s'"
  shows "\<exists>s4. s' = death_check dealt_by s4 \<and> isalive s4 = isalive s \<and> killed s4 = killed s
    \<and> hitpoints s4 = (if isinvincible s then hitpoints s
                      else hitpoints (hitpoints_setter e (hitpoints s - dmg) s))"
proof (cases "isinvincible s")
  case True
  with assms show ?thesis
    by (auto simp: take_damage_def Let_def change_state_health invincible_init_def
        dest!: set_back_health split: sum.splits if_splits)
next
  case False
  with assms obtain s1 s3 where
    s1: "shrink_loop (nat shrink) setback (hitpoints_setter e (hitpoints s - dmg) s) = Inr s1"
    and s3: "(if setback then set_back e (gain_speed e (- slowdown) s1)
              else Inr (gain_speed e (- slowdown) s1)) = Inr s3"
    and s': "s' = death_check dealt_by (if invincible \<and> \<not> isinvincible s3
              then change_state (SnakeInvincibleState invinc_lifetime 0 0) (invincible_init s3) else s3)"
    by (auto simp: take_damage_def Let_def split: sum.splits if_splits)
  have a: "hitpoints s1 = hitpoints (hitpoints_setter e (hitpoints s - dmg) s)"
    "isalive s1 = isalive s" "killed s1 = killed s"
    using shrink_loop_health[OF s1] by (simp_all add: hitpoints_setter_other)
  have b: "hitpoints s3 = hitpoints s1" "isalive s3 = isalive s1" "killed s3 = killed s1"
    using s3 by (auto simp: gain_speed_health dest!: set_back_health split: if_splits)
  show ?thesis
    using False a b by (auto simp: s' change_state_health invincible_init_def)
qed

text \<open>
  C5, as amended. Every call of \<open>take_damage\<close> that returns ends with the death check,
  whether or not the damage was applied: an invincible snake keeps its hitpoints, any other
  snake gets the clamped difference; if the resulting hitpoints are at most 0 the snake is
  marked dead and the handler is called once with the attacker, otherwise the handler is not
  called and \<open>isalive\<close> is unchanged. So the handler is called exactly once in the call that
  turns a living snake into a dead one, and once more in every later call that ends with
  hitpoints at most 0.
\<close>

theorem take_damage_death:
  assumes "take_damage e dmg dealt_by setback invincible invinc_lifetime shrink slowdown s = Inr s'"
  shows "hitpoints s' = (if isinvincible s then hitpoints s
                         else hitpoints (hitpoints_setter e (hitpoints s - dmg) s))
    \<and> (if hitpoints s' \<le> 0 then \<not> isalive s' \<and> killed s' = killed s @ [dealt_by]
       else isalive s' = isalive s \<and> killed s' = killed s)
    \<and> (isalive s \<and> \<not> isalive s' \<longrightarrow> killed s' = killed s @ [dealt_by])"
proof -
  obtain s4 where "s' = death_check dealt_by s4" "isalive s4 = isalive s" "killed s4 = killed s"
    "hitpoints s4 = (if isinvincible s then hitpoints s
                      else hitpoints (hitpoints_setter e (hitpoints s - dmg) s))"
    using take_damage_before_check[OF assms] by blast
  then show ?thesis by (simp add: death_check_def)
qed

theorem take_damage_death_witness:
  "take_damage example_env 10 7 False False 0 0 0 shielded_snake
     = Inr (shielded_snake\<lparr>isalive := False, killed := [7]\<rparr>)
   \<and> isinvincible shielded_snake \<and> isalive shielded_snake
   \<and> hitpoints (shielded_snake\<lparr>isalive := False, killed := [7]\<rparr>) \<le> 0
   \<and> killed (shielded_snake\<lparr>isalive := False, killed := [7]\<rparr>) = killed shielded_snake @ [7]"
proof -
  have r: "take_damage example_env 10 7 False False 0 0 0 shielded_snake
     = Inr (shielded_snake\<lparr>isalive := False, killed := [7]\<rparr>)"
    by (simp add: take_damage_def shielded_snake_def example_snake_def death_check_def)
  show ?thesis
    using take_damage_death[OF r] r by (simp add: shielded_snake_def example_snake_def)
qed

lemma reachable_mortal_snake: "reachable dyadic_env mortal_snake"
proof -
  have "update dyadic_env 5 (init dyadic_env (2, 2)) = Inr mortal_snake"
    by (simp add: update_def invincible_update_def change_state_def leave_def move_def Let_def
        init_def dyadic_env_def example_env_def mortal_snake_def)
  then show ?thesis
    by (rule r_update[OF r_init])
qed

text \<open>
  C5, as stated, fails in its last part: the handler is not called once per death. The snake
  below is reachable, alive and not invincible. A hit of 100 by attacker 7 kills it and calls
  the handler; a further hit by attacker 9 on the dead snake, in which no snake dies, calls
  the handler again.
\<close>

theorem take_damage_fires_again:
  "reachable dyadic_env mortal_snake \<and> isalive mortal_snake \<and> killed mortal_snake = []
   \<and> take_damage dyadic_env 100 7 False False 0 0 0 mortal_snake
       = Inr (mortal_snake\<lparr>hitpoints := 0, isalive := False, killed := [7]\<rparr>)
   \<and> take_damage dyadic_env 1 9 False False 0 0 0
         (mortal_snake\<lparr>hitpoints := 0, isalive := False, killed := [7]\<rparr>)
       = Inr (mortal_snake\<lparr>hitpoints := 0, isalive := False, killed := [7, 9]\<rparr>)"
  using reachable_mortal_snake
  by (simp add: take_damage_def hitpoints_setter_def gain_speed_def speed_setter_def
      death_check_def mortal_snake_def dyadic_env_def example_env_def)

subsection \<open>Blinking\<close>





subsection \<open>Shrinking under damage\<close>

lemma reachable_stepped_snake: "reachable dyadic_env stepped_snake"
proof -
  have "update dyadic_env 5
          ((set_heading dyadic_env (- 1, 0) ((init dyadic_env (2, 2))\<lparr>ismoving := True\<rparr>))
             \<lparr>grow := 1\<rparr>) = Inr stepped_snake"
    by (simp add: update_def invincible_update_def change_state_def leave_def move_def step_def
        resolve_growth_def item_def Let_def set_heading_def init_def dyadic_env_def
        example_env_def sign_vec_def add_vecs_def stepped_snake_def)
  then show ?thesis
    by (rule r_update[OF r_grow[OF r_set_heading[OF r_ismoving[OF r_init]]]])
qed

text \<open>
  Without \<open>setback\<close> the shrink loop pops from \<open>body\<close>, which it also tests: a body of at
  least 2 cells loses up to \<open>n\<close> cells and keeps at least 2.
\<close>

lemma shrink_loop_body:
  "2 \<le> length (body s) \<Longrightarrow>
   shrink_loop n False s = Inr (s\<lparr>body := take (max 2 (length (body s) - n)) (body s)\<rparr>)"
proof (induction n arbitrary: s)
  case 0
  then show ?case by simp
next
  case (Suc n)
  show ?case
  proof (cases "length (body s) = 2")
    case True
    then show ?thesis by simp
  next
    case False
    with Suc.prems have len: "3 \<le> length (body s)" by simp
    then have ne: "body s \<noteq> []" by auto
    have "max 2 (length (body s) - Suc n) < length (body s)" using len by arith
    then have "take (max 2 (length (butlast (body s)) - n)) (butlast (body s))
        = take (max 2 (length (body s) - Suc n)) (body s)"
      by (simp add: take_butlast)
    then show ?thesis
      using False ne len Suc.IH[of "s\<lparr>body := butlast (body s)\<rparr>"] by (simp add: pop_def)
  qed
qed

text \<open>
  C1 fails on the code. Under \<open>setback\<close> the loop pops from \<open>prev\<close> but still tests the
  length of \<open>body\<close>. The snake below is reachable (by a new snake at \<open>(2, 2)\<close> that is set
  moving west with \<open>grow = 1\<close> and updated once with a frame of 5 seconds) and not
  invincible, its body has 3 cells and \<open>prev\<close> has 2: a hit with \<open>setback\<close> and
  \<open>shrink = 1\<close> leaves \<open>prev\<close> with one cell, and restoring the body from it then raises
  \<open>IndexError\<close> at \<open>self.body[1]\<close>.
\<close>

theorem take_damage_setback_shrink:
  "reachable dyadic_env stepped_snake
   \<and> \<not> isinvincible stepped_snake
   \<and> length (body stepped_snake) = 3 \<and> length (prev stepped_snake) = 2
   \<and> shrink_loop (nat 1) True stepped_snake = Inr (stepped_snake\<lparr>prev := [(2, 2)]\<rparr>)
   \<and> take_damage dyadic_env 0 7 True False 0 1 0 stepped_snake = Inl IndexError"
  using reachable_stepped_snake
  by (simp add: stepped_snake_def take_damage_def hitpoints_setter_def dyadic_env_def
      example_env_def pop_def gain_speed_def speed_setter_def set_back_def item_def Let_def)

subsection \<open>The arrangement resolver\<close>

text \<open>
  C6, as amended. When the Manhattan distance between \<open>c\<close> and \<open>b\<close> exceeds 1, the logic
  for \<open>bc\<close> mirrors the \<open>ba\<close> case with \<open>c\<close> in the place of \<open>a\<close>, except that the edge
  test is the one made on \<open>a\<close>: if \<open>a\<close> lies on the edge, \<open>bc\<close> becomes the normalised
  negated vector (\<open>b - c\<close>); then the first portal exactly one step from \<open>b\<close>, if there is
  one, replaces \<open>c\<close> as the neighbour and \<open>bc\<close> is recomputed from it.
\<close>

theorem bc_gap_logic:
  assumes "item snake (index - 1) = Inr a" and "item snake index = Inr b"
    and "item snake (index + 1) = Inr c" and "1 < m_distance c b"
  shows "get_arrangement e snake index =
           classify b
             (if 1 < m_distance a b then gap_ba e (on_edge e a) a b (sub_vecs a b)
              else (a, sub_vecs a b))
             (case find (\<lambda>portal. m_distance portal b = 1) (portals e) of
                Some p \<Rightarrow> (p, sub_vecs p b)
              | None \<Rightarrow> (c, if on_edge e a then normalize e (sub_vecs b c) else sub_vecs c b))"
proof -
  have neg: "(- fst (sub_vecs c b), - snd (sub_vecs c b)) = sub_vecs b c"
    by (simp add: sub_vecs_def)
  show ?thesis
    using assms
    by (simp add: get_arrangement_def gap_bc_def next_portal_def neg Let_def
        split: option.splits)
qed

theorem bc_gap_logic_witness:
  "item [(0, 4), (0, 5), (9, 5)] (1 - 1) = Inr (0, 4) \<and> item [(0, 4), (0, 5), (9, 5)] 1 = Inr (0, 5)
   \<and> item [(0, 4), (0, 5), (9, 5)] (1 + 1) = Inr (9, 5) \<and> 1 < m_distance (9, 5) (0, 5)
   \<and> on_edge example_env (0, 4)
   \<and> get_arrangement example_env [(0, 4), (0, 5), (9, 5)] 1
       = classify (0, 5) ((0, 4), (0, - 1)) ((9, 5), (- 1, 0))
   \<and> get_arrangement example_env [(0, 4), (0, 5), (9, 5)] 1 = Inr NW"
  using bc_gap_logic[of "[(0, 4), (0, 5), (9, 5)]" 1 "(0, 4)" "(0, 5)" "(9, 5)" example_env]
  by (simp add: item_def m_distance_def sub_vecs_def example_env_def sign_vec_def classify_def
      lookup_def VEC_TO_DIRFLAG_def NW_def FLAG_N_def FLAG_W_def FLAG_E_def FLAG_S_def)

text \<open>
  C6, as stated, fails: here \<open>c = (9, 5)\<close> lies on the edge and is apart from \<open>b\<close>, \<open>a\<close>
  does not lie on the edge, and \<open>bc\<close> is left as it is, where an edge test on \<open>c\<close> would
  have made it the unit vector pointing west; the resolver then fails on the lookup of
  \<open>(4, 0)\<close> instead of returning \<open>NW\<close>.
\<close>

theorem bc_gap_edge_test_counterexample:
  "1 < m_distance (9, 5) (5, 5) \<and> on_edge example_env (9, 5) \<and> \<not> on_edge example_env (5, 4)
   \<and> gap_bc example_env (on_edge example_env (5, 4)) (9, 5) (5, 5) (sub_vecs (9, 5) (5, 5))
       = ((9, 5), (4, 0))
   \<and> gap_bc_symmetric example_env (9, 5) (5, 5) (sub_vecs (9, 5) (5, 5)) = ((9, 5), (- 1, 0))
   \<and> get_arrangement example_env [(5, 4), (5, 5), (9, 5)] 1 = Inl KeyError
   \<and> classify (5, 5) ((5, 4), sub_vecs (5, 4) (5, 5))
       (gap_bc_symmetric example_env (9, 5) (5, 5) (sub_vecs (9, 5) (5, 5))) = Inr NW"
  by (simp add: get_arrangement_def gap_bc_def gap_bc_symmetric_def next_portal_def item_def
      m_distance_def sub_vecs_def example_env_def sign_vec_def classify_def lookup_def
      VEC_TO_DIRFLAG_def NW_def FLAG_N_def FLAG_W_def FLAG_E_def FLAG_S_def Let_def)

text \<open>
  C7, as amended. For an interior index, with \<open>a\<close>, \<open>c\<close>, \<open>ba\<close> and \<open>bc\<close> as the two gap
  blocks leave them, the resolver returns \<open>VERTICAL | STRAIGHT\<close> when \<open>a\<close>, \<open>b\<close>, \<open>c\<close>
  share the x-coordinate, else \<open>STRAIGHT\<close> when they share the y-coordinate, and else the
  bitwise OR of the flags that \<open>VEC_TO_DIRFLAG\<close> gives for \<open>ba\<close> and \<open>bc\<close> when both are
  keys of that table, that is unit vectors; when one of them is not, the lookup raises
  \<open>KeyError\<close>.
\<close>

theorem get_arrangement_interior:
  assumes "0 < index" and "index < int (length snake) - 1"
  shows "get_arrangement e snake index =
    (let a = snake ! nat (index - 1); b = snake ! nat index; c = snake ! nat (index + 1);
         (a1, ba) = (if 1 < m_distance a b then gap_ba e (on_edge e a) a b (sub_vecs a b)
                     else (a, sub_vecs a b));
         (c1, bc) = (if 1 < m_distance c b then gap_bc e (on_edge e a) c b (sub_vecs c b)
                     else (c, sub_vecs c b))
     in if fst a1 = fst b \<and> fst b = fst c1 then Inr (VERTICAL OR STRAIGHT)
        else if snd a1 = snd b \<and> snd b = snd c1 then Inr STRAIGHT
        else (case (VEC_TO_DIRFLAG ba, VEC_TO_DIRFLAG bc) of
                (Some f, Some g) \<Rightarrow> Inr (f OR g)
              | _ \<Rightarrow> Inl KeyError))"
proof -
  define a where "a = snake ! nat (index - 1)"
  define b where "b = snake ! nat index"
  define c where "c = snake ! nat (index + 1)"
  define aa where "aa = (if 1 < m_distance a b then gap_ba e (on_edge e a) a b (sub_vecs a b)
                         else (a, sub_vecs a b))"
  define cc where "cc = (if 1 < m_distance c b then gap_bc e (on_edge e a) c b (sub_vecs c b)
                         else (c, sub_vecs c b))"
  have items: "item snake (index - 1) = Inr a" "item snake index = Inr b"
    "item snake (index + 1) = Inr c"
    using assms by (simp_all add: item_def a_def b_def c_def)
  have "get_arrangement e snake index = classify b aa cc"
    by (simp add: get_arrangement_def items Let_def aa_def cc_def)
  also have "\<dots> = (case aa of (a1, ba) \<Rightarrow> case cc of (c1, bc) \<Rightarrow>
      if fst a1 = fst b \<and> fst b = fst c1 then Inr (VERTICAL OR STRAIGHT)
      else if snd a1 = snd b \<and> snd b = snd c1 then Inr STRAIGHT
      else (case (VEC_TO_DIRFLAG ba, VEC_TO_DIRFLAG bc) of
              (Some f, Some g) \<Rightarrow> Inr (f OR g)
            | _ \<Rightarrow> Inl KeyError))"
    by (cases aa; cases cc) (simp add: classify_def lookup_def split: option.splits)
  finally show ?thesis
    unfolding Let_def a_def b_def c_def aa_def cc_def .
qed

theorem get_arrangement_interior_witness:
  "(0 :: int) < 1 \<and> (1 :: int) < int (length [(1, 0), (0, 0), (0, 1 :: int) :: int \<times> int]) - 1
   \<and> get_arrangement example_env [(1, 0), (0, 0), (0, 1)] 1 = Inr (FLAG_E OR FLAG_S)
   \<and> FLAG_E OR FLAG_S = SE
   \<and> get_arrangement example_env [(0, 5), (1, 5), (2, 5)] 1 = Inr STRAIGHT
   \<and> get_arrangement example_env [(3, 1), (3, 2), (3, 3)] 1 = Inr (VERTICAL OR STRAIGHT)
   \<and> VERTICAL OR STRAIGHT = 48"
proof -
  have "get_arrangement example_env [(1, 0), (0, 0), (0, 1)] 1 = Inr (FLAG_E OR FLAG_S)"
    using get_arrangement_interior[of 1 "[(1, 0), (0, 0), (0, 1)]" example_env]
    by (simp add: m_distance_def sub_vecs_def VEC_TO_DIRFLAG_def Let_def)
  moreover have "get_arrangement example_env [(0, 5), (1, 5), (2, 5)] 1 = Inr STRAIGHT"
    "get_arrangement example_env [(3, 1), (3, 2), (3, 3)] 1 = Inr (VERTICAL OR STRAIGHT)"
    by (simp_all add: get_arrangement_def item_def m_distance_def sub_vecs_def classify_def
        Let_def)
  ultimately show ?thesis
    by (simp add: FLAG_E_def FLAG_S_def SE_def VERTICAL_def STRAIGHT_def)
qed

text \<open>
  C7, as stated, fails in its last case: at the interior index 1 of the cells below, which
  share neither coordinate, no cell lies on the edge and there is no portal, so \<open>bc\<close> stays
  \<open>(3, 0)\<close>, which has no flag, and the resolver raises \<open>KeyError\<close> where C7 has it
  return the OR of two flags.
\<close>

theorem get_arrangement_lookup_fails:
  "(0 :: int) < 1 \<and> (1 :: int) < int (length [(5, 4), (5, 5), (8, 5 :: int) :: int \<times> int]) - 1
   \<and> fst (5 :: int, 4 :: int) \<noteq> (8 :: int) \<and> snd (5 :: int, 4 :: int) \<noteq> (5 :: int)
   \<and> \<not> on_edge example_env (5, 4) \<and> \<not> on_edge example_env (8, 5)
   \<and> VEC_TO_DIRFLAG (sub_vecs (8, 5) (5, 5)) = None
   \<and> get_arrangement example_env [(5, 4), (5, 5), (8, 5)] 1 = Inl KeyError"
  by (simp add: get_arrangement_def gap_bc_def next_portal_def item_def m_distance_def
      sub_vecs_def example_env_def classify_def lookup_def VEC_TO_DIRFLAG_def Let_def)

subsection \<open>Flag lookups of the rendering\<close>



















end
